theory Spec2Isabelle
  imports Main "HOL-Library.Word" "HOL-Library.AList"
begin

section \<open>The minfs volume driver (main.go)\<close>

text \<open>
  The driver keeps one \<open>mountInfo\<close> per volume name and answers the requests of the
  Docker volume-plugin protocol. The methods of \<open>minfsDriver\<close> are embedded as functions
  that take the driver and return the response together with the updated driver and the
  operating-system calls made, in order. Every method runs under the driver's mutex, so one
  method call is one atomic step; the lock itself is not modelled.
\<close>

subsection \<open>Data\<close>

record serverConfig =
  endpoint :: string
  bucket :: string
  accessKey :: string
  secretKey :: string

text \<open>
  \<open>connections\<close> is a Go \<open>int\<close>, taken as 64 bits wide: \<open>v.connections++\<close> and
  \<open>v.connections--\<close> wrap, and the comparisons of the source are signed (\<open>sint\<close>).
  The fields carry the names of the struct declaration; the methods write \<open>v.mountpoint\<close>
  for \<open>mountPoint\<close> and \<open>Create\<close> writes \<open>mntInfo.Config\<close> for \<open>serverconfig\<close>.
\<close>

record mountInfo =
  serverconfig :: serverConfig
  mountPoint :: string
  connections :: "64 word"

text \<open>
  The struct declares the map as \<open>mounts\<close>; every method but \<open>Create\<close>'s empty test reads
  and writes it as \<open>d.volumes\<close>, the name kept here. A Go map has one value per key and no
  order: it is an association list that is only read through \<open>map_of\<close> and only written
  through \<open>AList.update\<close> and \<open>AList.delete\<close>. The entries are pointers, each allocated by
  one \<open>Create\<close> and reachable from its own key only, so \<open>v.connections++\<close> on the looked-up
  pointer is an update of that key's entry.
\<close>

record minfsDriver =
  mountRoot :: string
  volumes :: "(string \<times> mountInfo) list"

text \<open>
  \<open>volume.Request\<close>: a nil \<open>Options\<close> map is \<open>None\<close>. \<open>Mount\<close> and \<open>Unmount\<close> read
  only the \<open>Name\<close> of their request, which they take as their argument.
\<close>

record Request =
  Name :: string
  Options :: "(string \<rightharpoonup> string) option"

text \<open>
  The payload of a \<open>volume.Response\<close> without \<open>Err\<close>: the empty response, a mount
  point, one volume (name and mount point), the listed volumes, or the capability scope.
\<close>

datatype reply =
    Empty
  | Mountpoint string
  | Volume string string
  | Volumes "(string \<times> string) list"
  | Capability string

text \<open>
  A response with \<open>Err\<close> set. The source only has the message; the constructor records
  which return statement produced it:
  \<^item> \<open>InvalidArgument\<close>: the five argument checks of \<open>Create\<close>, with their message;
  \<^item> \<open>NotFound\<close>: \<open>volume %s not found\<close>, with the name;
  \<^item> \<open>InUse\<close>: \<open>volume %s is currently used by a container\<close>, with the name;
  \<^item> \<open>IOError\<close>: the error text of \<open>os.Lstat\<close>, \<open>os.MkdirAll\<close> or \<open>os.RemoveAll\<close>, or
    the not-a-directory message;
  \<^item> \<open>MountError\<close>, \<open>UnmountError\<close>: the error text of \<open>mountVolume\<close>, \<open>unmountVolume\<close>.
  \<open>Err\<close> gives the message back. \<open>Create\<close> builds its error responses with
  \<open>errorResponse\<close>; the other methods call \<open>responseError\<close>, which the file does not
  declare and which is read as the same function.
\<close>

datatype error =
    InvalidArgument string
  | NotFound string
  | InUse string
  | IOError string
  | MountError string
  | UnmountError string

fun Err :: "error \<Rightarrow> string" where
  "Err (InvalidArgument m) = m"
| "Err (NotFound n) = ''volume '' @ n @ '' not found''"
| "Err (InUse n) = ''volume '' @ n @ '' is currently used by a container''"
| "Err (IOError m) = m"
| "Err (MountError m) = m"
| "Err (UnmountError m) = m"

subsection \<open>The operating system\<close>

text \<open>
  What \<open>os.Lstat\<close> returns: file information (of which only \<open>IsDir()\<close> is read), an error
  for which \<open>os.IsNotExist\<close> holds, or another error with its text.
\<close>

datatype lstat_result = LstatOk bool | LstatNotExist | LstatErr string

text \<open>
  The calls out of the process, as one method call sees them: the result of each call as a
  function of its argument, \<open>None\<close> for a nil error and \<open>Some\<close> of the error text
  otherwise. \<open>Run\<close> is \<open>exec.Command("sh", "-c", cmd).Run()\<close>. A method makes each of
  these calls at most once, so one result per call and argument describes every execution.
  \<open>Join\<close> is \<open>filepath.Join\<close> on two elements, a library function taken as it is.
\<close>

record os =
  Lstat :: "string \<Rightarrow> lstat_result"
  MkdirAll :: "string \<Rightarrow> string option"
  RemoveAll :: "string \<Rightarrow> string option"
  Run :: "string \<Rightarrow> string option"
  Join :: "string \<Rightarrow> string \<Rightarrow> string"

text \<open>The calls a method made, in order.\<close>

datatype syscall =
    SLstat string
  | SMkdirAll string
  | SRemoveAll string
  | SRun string

type_synonym response = "(error + reply) \<times> minfsDriver \<times> syscall list"

subsection \<open>The driver's methods\<close>

definition newMinfsDriver :: "string \<Rightarrow> minfsDriver" where
  "newMinfsDriver root = \<lparr>mountRoot = root, volumes = []\<rparr>"

text \<open>Indexing a Go map of strings: a missing key reads as the empty string.\<close>

definition option_value :: "(string \<rightharpoonup> string) \<Rightarrow> string \<Rightarrow> string" where
  "option_value opts k = (case opts k of None \<Rightarrow> [] | Some s \<Rightarrow> s)"

text \<open>
  \<open>Create\<close>. The test \<open>if ok := d.mounts[r.Name]; ok { }\<close> between the name check and the
  option checks has an empty body and contributes no branch. The source stores an
  undeclared \<open>v\<close>; the value built just above it, \<open>mntInfo\<close>, is what is stored.
  \<open>&mountInfo{}\<close> starts \<open>connections\<close> at 0.
\<close>

definition Create :: "os \<Rightarrow> minfsDriver \<Rightarrow> Request \<Rightarrow> response" where
  "Create sys d r =
    (if Name r = [] then
       (Inl (InvalidArgument ''Name of the driver cannot be empty.Use `$ docker volume create -d <plugin-name> --name <volume-name>`''), d, [])
     else case Options r of
       None \<Rightarrow> (Inl (InvalidArgument ''No options provided. Please refer example usage.''), d, [])
     | Some opts \<Rightarrow>
         if option_value opts ''endpoint'' = [] then
           (Inl (InvalidArgument ''endpoint option cannot be empty.''), d, [])
         else if option_value opts ''bucket'' = [] then
           (Inl (InvalidArgument ''bucket option cannot be empty.''), d, [])
         else if option_value opts ''access-key'' = [] then
           (Inl (InvalidArgument ''access-key option cannot be empty''), d, [])
         else if option_value opts ''secret-key'' = [] then
           (Inl (InvalidArgument ''secret-key cannot be empty.''), d, [])
         else
           let config = \<lparr>endpoint = option_value opts ''endpoint'',
                         bucket = option_value opts ''bucket'',
                         accessKey = option_value opts ''access-key'',
                         secretKey = option_value opts ''secret-key''\<rparr>;
               mntInfo = \<lparr>serverconfig = config,
                          mountPoint = Join sys (mountRoot d) (Name r),
                          connections = 0\<rparr>
           in (Inr Empty, d\<lparr>volumes := AList.update (Name r) mntInfo (volumes d)\<rparr>, []))"

definition Remove :: "os \<Rightarrow> minfsDriver \<Rightarrow> Request \<Rightarrow> response" where
  "Remove sys d r =
    (case map_of (volumes d) (Name r) of
       None \<Rightarrow> (Inl (NotFound (Name r)), d, [])
     | Some v \<Rightarrow>
         if connections v = 0 then
           (case RemoveAll sys (mountPoint v) of
              Some e \<Rightarrow> (Inl (IOError e), d, [SRemoveAll (mountPoint v)])
            | None \<Rightarrow> (Inr Empty, d\<lparr>volumes := AList.delete (Name r) (volumes d)\<rparr>,
                       [SRemoveAll (mountPoint v)]))
         else (Inl (InUse (Name r)), d, []))"

definition Path :: "minfsDriver \<Rightarrow> Request \<Rightarrow> response" where
  "Path d r =
    (case map_of (volumes d) (Name r) of
       None \<Rightarrow> (Inl (NotFound (Name r)), d, [])
     | Some v \<Rightarrow> (Inr (Mountpoint (mountPoint v)), d, []))"

text \<open>The two shell commands. \<open>mountVolume\<close> runs a fixed text and does not read \<open>v\<close>.\<close>

definition mount_cmd :: string where
  "mount_cmd = ''<mount here>''"

definition umount_cmd :: "string \<Rightarrow> string" where
  "umount_cmd target = ''umount '' @ target"

definition mountVolume :: "os \<Rightarrow> mountInfo \<Rightarrow> string option" where
  "mountVolume sys v = Run sys mount_cmd"

definition unmountVolume :: "os \<Rightarrow> string \<Rightarrow> string option" where
  "unmountVolume sys target = Run sys (umount_cmd target)"

text \<open>
  \<open>Mount\<close>. With \<open>connections > 0\<close> the count is incremented and nothing else happens.
  Otherwise the mount point is examined, created when absent, and \<open>mountVolume\<close> runs;
  the source then returns the mount point and writes nothing to \<open>v\<close>. The call of
  \<open>mountVolume\<close> that follows both the created and the existing directory is written out
  in each of the two branches.
\<close>

definition Mount :: "os \<Rightarrow> minfsDriver \<Rightarrow> string \<Rightarrow> response" where
  "Mount sys d name =
    (case map_of (volumes d) name of
       None \<Rightarrow> (Inl (NotFound name), d, [])
     | Some v \<Rightarrow>
         if 0 < sint (connections v) then
           (Inr (Mountpoint (mountPoint v)),
            d\<lparr>volumes := AList.update name (v\<lparr>connections := connections v + 1\<rparr>) (volumes d)\<rparr>,
            [])
         else
           (let p = mountPoint v in
            (case Lstat sys p of
               LstatNotExist \<Rightarrow>
                 (case MkdirAll sys p of
                    Some e \<Rightarrow> (Inl (IOError e), d, [SLstat p, SMkdirAll p])
                  | None \<Rightarrow>
                      (case mountVolume sys v of
                         Some e \<Rightarrow>
                           (Inl (MountError e), d, [SLstat p, SMkdirAll p, SRun mount_cmd])
                       | None \<Rightarrow>
                           (Inr (Mountpoint p), d, [SLstat p, SMkdirAll p, SRun mount_cmd])))
             | LstatErr e \<Rightarrow> (Inl (IOError e), d, [SLstat p])
             | LstatOk isDir \<Rightarrow>
                 (if \<not> isDir then
                    (Inl (IOError (p @ '' already exist and it's not a directory'')), d,
                     [SLstat p])
                  else
                    (case mountVolume sys v of
                       Some e \<Rightarrow> (Inl (MountError e), d, [SLstat p, SRun mount_cmd])
                     | None \<Rightarrow> (Inr (Mountpoint p), d, [SLstat p, SRun mount_cmd]))))))"

definition Unmount :: "os \<Rightarrow> minfsDriver \<Rightarrow> string \<Rightarrow> response" where
  "Unmount sys d name =
    (case map_of (volumes d) name of
       None \<Rightarrow> (Inl (NotFound name), d, [])
     | Some v \<Rightarrow>
         if sint (connections v) \<le> 1 then
           (case unmountVolume sys (mountPoint v) of
              Some e \<Rightarrow> (Inl (UnmountError e), d, [SRun (umount_cmd (mountPoint v))])
            | None \<Rightarrow>
                (Inr Empty,
                 d\<lparr>volumes := AList.update name (v\<lparr>connections := 0\<rparr>) (volumes d)\<rparr>,
                 [SRun (umount_cmd (mountPoint v))]))
         else
           (Inr Empty,
            d\<lparr>volumes := AList.update name (v\<lparr>connections := connections v - 1\<rparr>) (volumes d)\<rparr>,
            []))"

definition Get :: "minfsDriver \<Rightarrow> Request \<Rightarrow> response" where
  "Get d r =
    (case map_of (volumes d) (Name r) of
       None \<Rightarrow> (Inl (NotFound (Name r)), d, [])
     | Some v \<Rightarrow> (Inr (Volume (Name r) (mountPoint v)), d, []))"

text \<open>
  \<open>List\<close> ranges over the map in an order Go leaves open; the model lists the entries in
  the order of the association list.
\<close>

definition List :: "minfsDriver \<Rightarrow> Request \<Rightarrow> response" where
  "List d r = (Inr (Volumes (map (\<lambda>(name, v). (name, mountPoint v)) (volumes d))), d, [])"

definition Capabilities :: "minfsDriver \<Rightarrow> Request \<Rightarrow> response" where
  "Capabilities d r = (Inr (Capability ''local''), d, [])"

subsection \<open>Sequences of requests\<close>

text \<open>
  The handler of the plugin protocol calls one method per request. A request comes with
  the operating system as that call finds it.
\<close>

datatype call =
    CallCreate Request
  | CallRemove Request
  | CallPath Request
  | CallMount string
  | CallUnmount string
  | CallGet Request
  | CallList Request
  | CallCapabilities Request

fun handle :: "os \<Rightarrow> minfsDriver \<Rightarrow> call \<Rightarrow> response" where
  "handle sys d (CallCreate r) = Create sys d r"
| "handle sys d (CallRemove r) = Remove sys d r"
| "handle sys d (CallPath r) = Path d r"
| "handle sys d (CallMount name) = Mount sys d name"
| "handle sys d (CallUnmount name) = Unmount sys d name"
| "handle sys d (CallGet r) = Get d r"
| "handle sys d (CallList r) = List d r"
| "handle sys d (CallCapabilities r) = Capabilities d r"

text \<open>The responses to a sequence of requests, each served on the driver the previous left.\<close>

fun serve :: "minfsDriver \<Rightarrow> (os \<times> call) list \<Rightarrow> response list" where
  "serve d [] = []"
| "serve d ((sys, c) # cs) = (let r = handle sys d c in r # serve (fst (snd r)) cs)"

text \<open>The driver after a sequence of requests, and all the calls made, in order.\<close>

fun driver_after :: "minfsDriver \<Rightarrow> (os \<times> call) list \<Rightarrow> minfsDriver" where
  "driver_after d [] = d"
| "driver_after d ((sys, c) # cs) = driver_after (fst (snd (handle sys d c))) cs"

definition syscalls :: "response list \<Rightarrow> syscall list" where
  "syscalls rs = concat (map (\<lambda>r. snd (snd r)) rs)"

text \<open>How often the backend was asked to mount, and to unmount a given mount point.\<close>

definition backend_mounts :: "syscall list \<Rightarrow> nat" where
  "backend_mounts tr = length (filter (\<lambda>c. c = SRun mount_cmd) tr)"

definition backend_unmounts :: "string \<Rightarrow> syscall list \<Rightarrow> nat" where
  "backend_unmounts target tr = length (filter (\<lambda>c. c = SRun (umount_cmd target)) tr)"

text \<open>The count of a volume, as a signed number; \<open>None\<close> when the name is not registered.\<close>

definition refCount :: "minfsDriver \<Rightarrow> string \<Rightarrow> int option" where
  "refCount d name = map_option (\<lambda>v. sint (connections v)) (map_of (volumes d) name)"

text \<open>
  An operating system on which every call succeeds: the path looked at is a directory,
  and \<open>Join\<close> puts a slash between its arguments. And the options of a volume.
\<close>

definition friendly :: os where
  "friendly = \<lparr>Lstat = (\<lambda>p. LstatOk True), MkdirAll = (\<lambda>p. None), RemoveAll = (\<lambda>p. None),
     Run = (\<lambda>c. None), Join = (\<lambda>a b. a @ ''/'' @ b)\<rparr>"

definition play :: "string \<rightharpoonup> string" where
  "play = [''endpoint'' \<mapsto> ''https://play.minio.io:9000'', ''bucket'' \<mapsto> ''test-bucket'',
     ''access-key'' \<mapsto> ''Q3AM3UQ867SPQQA43P2F'', ''secret-key'' \<mapsto> ''zuf+tfteSlswRu7BJ86wekitnifILbZam1KYY3TG'']"

text \<open>
  The driver started on \<open>/mnt/minfs\<close> after a volume \<open>store\<close> was created with these
  options, and the entry it holds for that volume.
\<close>

definition with_store :: minfsDriver where
  "with_store =
     fst (snd (Create friendly (newMinfsDriver ''/mnt/minfs'') \<lparr>Name = ''store'', Options = Some play\<rparr>))"

definition store_info :: mountInfo where
  "store_info =
     \<lparr>serverconfig = \<lparr>endpoint = ''https://play.minio.io:9000'', bucket = ''test-bucket'',
        accessKey = ''Q3AM3UQ867SPQQA43P2F'',
        secretKey = ''zuf+tfteSlswRu7BJ86wekitnifILbZam1KYY3TG''\<rparr>,
      mountPoint = ''/mnt/minfs/store'', connections = 0\<rparr>"

text \<open>The same driver with the count of \<open>store\<close> set to \<open>n\<close>.\<close>

definition in_use :: "64 word \<Rightarrow> minfsDriver" where
  "in_use n = with_store\<lparr>volumes := [(''store'', store_info\<lparr>connections := n\<rparr>)]\<rparr>"

text \<open>An operating system like \<open>friendly\<close>, on which every shell command fails.\<close>

definition backend_down :: os where
  "backend_down = friendly\<lparr>Run := (\<lambda>c. Some ''exit status 2'')\<rparr>"

subsection \<open>Notions used in the statements\<close>

text \<open>
  The first half of \<open>Mount\<close> on an unreferenced volume gets past the mount point: the path
  is a directory, or it is absent and \<open>os.MkdirAll\<close> creates it.
\<close>

definition mount_dir_ready :: "os \<Rightarrow> string \<Rightarrow> bool" where
  "mount_dir_ready sys p =
    (case Lstat sys p of
       LstatOk isDir \<Rightarrow> isDir
     | LstatNotExist \<Rightarrow> MkdirAll sys p = None
     | LstatErr e \<Rightarrow> False)"

text \<open>The entry a \<open>Create\<close> request with options \<open>opts\<close> describes.\<close>

definition described :: "os \<Rightarrow> minfsDriver \<Rightarrow> Request \<Rightarrow> (string \<rightharpoonup> string) \<Rightarrow> mountInfo" where
  "described sys d r opts =
     \<lparr>serverconfig = \<lparr>endpoint = option_value opts ''endpoint'',
        bucket = option_value opts ''bucket'',
        accessKey = option_value opts ''access-key'',
        secretKey = option_value opts ''secret-key''\<rparr>,
      mountPoint = Join sys (mountRoot d) (Name r), connections = 0\<rparr>"

section \<open>Properties\<close>

subsection \<open>Auxiliary facts\<close>

lemma sint_decrement: "1 < sint (c::64 word) \<Longrightarrow> sint (c - 1) = sint c - 1"
  using sint_lt [of c] by (simp add: sint_word_ariths signed_take_bit_int_eq_self)

lemma with_store_eq:
  "with_store = \<lparr>mountRoot = ''/mnt/minfs'', volumes = [(''store'', store_info)]\<rparr>"
  by (simp add: with_store_def store_info_def Create_def newMinfsDriver_def friendly_def
      play_def option_value_def)

lemma in_use_eq:
  "in_use n = \<lparr>mountRoot = ''/mnt/minfs'', volumes = [(''store'', store_info\<lparr>connections := n\<rparr>)]\<rparr>"
  by (simp add: in_use_def with_store_eq)

text \<open>
  \<open>Mount\<close> on a registered volume whose count is not positive returns the driver it was
  given, whatever the operating system answers.
\<close>

lemma Mount_unreferenced:
  assumes "map_of (volumes d) name = Some v" and "\<not> 0 < sint (connections v)"
  shows "fst (snd (Mount sys d name)) = d"
  using assms by (simp add: Mount_def Let_def split: lstat_result.split option.split)

text \<open>When \<open>Mount\<close> answers with an error.\<close>

lemma Mount_error_iff:
  "(\<exists>e. fst (Mount sys d name) = Inl e) \<longleftrightarrow>
     (case map_of (volumes d) name of
        None \<Rightarrow> True
      | Some v \<Rightarrow> \<not> 0 < sint (connections v) \<and>
          (\<not> mount_dir_ready sys (mountPoint v) \<or> mountVolume sys v \<noteq> None))"
  by (auto simp: Mount_def Let_def mount_dir_ready_def
      split: option.splits lstat_result.splits if_splits)

text \<open>
  If every count is 0, every count is 0 after one more request: \<open>Create\<close> stores 0,
  \<open>Mount\<close> at 0 writes nothing, \<open>Unmount\<close> at 0 stores 0 or writes nothing, \<open>Remove\<close>
  only deletes.
\<close>

lemma handle_keeps_unreferenced:
  assumes "\<forall>n v. map_of (volumes d) n = Some v \<longrightarrow> connections v = 0"
  shows "\<forall>n v. map_of (volumes (fst (snd (handle sys d c)))) n = Some v \<longrightarrow> connections v = 0"
proof (cases c)
  case (CallCreate r)
  with assms show ?thesis
    by (auto simp: Create_def Let_def update_conv' split: option.splits if_splits)
next
  case (CallRemove r)
  with assms show ?thesis
    by (auto simp: Remove_def delete_conv' split: option.splits if_splits)
next
  case (CallMount name)
  show ?thesis
  proof (cases "map_of (volumes d) name")
    case None
    with assms CallMount show ?thesis by (simp add: Mount_def)
  next
    case (Some v)
    with assms have "\<not> 0 < sint (connections v)" by simp
    with Some have "fst (snd (Mount sys d name)) = d" by (rule Mount_unreferenced)
    with assms CallMount show ?thesis by simp
  qed
next
  case (CallUnmount name)
  with assms show ?thesis
    by (auto simp: Unmount_def update_conv' split: option.splits if_splits)
qed (use assms in \<open>simp_all add: Path_def Get_def List_def Capabilities_def split: option.splits\<close>)

lemma driver_after_keeps_unreferenced:
  assumes "\<forall>n v. map_of (volumes d) n = Some v \<longrightarrow> connections v = 0"
  shows "\<forall>n v. map_of (volumes (driver_after d cs)) n = Some v \<longrightarrow> connections v = 0"
  using assms
proof (induction cs arbitrary: d)
  case Nil
  then show ?case by simp
next
  case (Cons a cs)
  obtain sys c where a: "a = (sys, c)" by (cases a)
  from Cons.prems
  have "\<forall>n v. map_of (volumes (fst (snd (handle sys d c)))) n = Some v \<longrightarrow> connections v = 0"
    by (rule handle_keeps_unreferenced)
  then show ?case unfolding a driver_after.simps by (rule Cons.IH)
qed

text \<open>A driver started empty never registers the empty name: \<open>Create\<close> refuses it.\<close>

lemma handle_keeps_names:
  assumes "\<forall>v. map_of (volumes d) [] \<noteq> Some v"
  shows "\<forall>v. map_of (volumes (fst (snd (handle sys d c)))) [] \<noteq> Some v"
proof (cases c)
  case (CallCreate r)
  with assms show ?thesis
    by (auto simp: Create_def Let_def update_conv' split: option.splits if_splits)
next
  case (CallRemove r)
  with assms show ?thesis
    by (auto simp: Remove_def delete_conv' split: option.splits if_splits)
next
  case (CallMount name)
  with assms show ?thesis
    by (auto simp: Mount_def Let_def update_conv'
        split: option.splits lstat_result.splits if_splits)
next
  case (CallUnmount name)
  with assms show ?thesis
    by (auto simp: Unmount_def update_conv' split: option.splits if_splits)
qed (use assms in \<open>simp_all add: Path_def Get_def List_def Capabilities_def split: option.splits\<close>)

lemma registered_name_not_empty:
  "map_of (volumes (driver_after (newMinfsDriver root) cs)) [] = None"
proof -
  have "\<forall>v. map_of (volumes (driver_after d cs)) [] \<noteq> Some v"
    if "\<forall>v. map_of (volumes d) [] \<noteq> Some v" for d
    using that
  proof (induction cs arbitrary: d)
    case Nil
    then show ?case by simp
  next
    case (Cons a cs)
    obtain sys c where a: "a = (sys, c)" by (cases a)
    from Cons.prems
    have "\<forall>v. map_of (volumes (fst (snd (handle sys d c)))) [] \<noteq> Some v"
      by (rule handle_keeps_names)
    then show ?case unfolding a driver_after.simps by (rule Cons.IH)
  qed
  then show ?thesis by (simp add: newMinfsDriver_def)
qed

subsection \<open>Mount and Unmount calls and the backend\<close>

text \<open>
  C1: on every sequence of Mount and Unmount calls on one volume that starts at count 0, the
  backend mounts once per passage from unreferenced to referenced and unmounts once per
  passage back; Mount, Mount, Unmount, Unmount on a fresh volume makes one backend mount
  and one backend unmount, the count going 0, 1, 2, 1, 0.

  The code does otherwise on that very sequence. With every operating-system call
  succeeding, the four calls answer without error, the count of \<open>store\<close> is 0 before the
  first call and after each of the four, and the shell is asked to mount twice and to
  unmount twice.
\<close>

theorem mount_mount_unmount_unmount:
  "refCount with_store ''store'' = Some 0
   \<and> map (\<lambda>r. refCount (fst (snd r)) ''store'')
       (serve with_store [(friendly, CallMount ''store''), (friendly, CallMount ''store''),
          (friendly, CallUnmount ''store''), (friendly, CallUnmount ''store'')])
     = [Some 0, Some 0, Some 0, Some 0]
   \<and> map fst
       (serve with_store [(friendly, CallMount ''store''), (friendly, CallMount ''store''),
          (friendly, CallUnmount ''store''), (friendly, CallUnmount ''store'')])
     = [Inr (Mountpoint ''/mnt/minfs/store''), Inr (Mountpoint ''/mnt/minfs/store''),
        Inr Empty, Inr Empty]
   \<and> backend_mounts (syscalls
       (serve with_store [(friendly, CallMount ''store''), (friendly, CallMount ''store''),
          (friendly, CallUnmount ''store''), (friendly, CallUnmount ''store'')])) = 2
   \<and> backend_unmounts ''/mnt/minfs/store'' (syscalls
       (serve with_store [(friendly, CallMount ''store''), (friendly, CallMount ''store''),
          (friendly, CallUnmount ''store''), (friendly, CallUnmount ''store'')])) = 2"
  by (simp add: with_store_eq store_info_def Mount_def Unmount_def mountVolume_def
      unmountVolume_def friendly_def Let_def refCount_def syscalls_def backend_mounts_def
      backend_unmounts_def mount_cmd_def umount_cmd_def)

text \<open>
  C2: for a registered volume with count 0, Mount makes sure the mount path is a directory,
  calls the backend mount and, when that succeeds, sets the count to 1 and returns the
  mount path.

  The code does all of it but the count. On the fresh volume \<open>store\<close>, with the mount
  path a directory and the shell command succeeding, Mount looks at the path, runs the mount
  command and returns the mount path; the driver it leaves is the one it was given, and the
  count of \<open>store\<close> is 0 after the call as before.
\<close>

theorem mount_leaves_count_at_zero:
  "Mount friendly with_store ''store'' =
     (Inr (Mountpoint ''/mnt/minfs/store''), with_store,
      [SLstat ''/mnt/minfs/store'', SRun mount_cmd])
   \<and> refCount with_store ''store'' = Some 0
   \<and> refCount (fst (snd (Mount friendly with_store ''store''))) ''store'' = Some 0"
  by (simp add: with_store_eq store_info_def Mount_def mountVolume_def friendly_def Let_def
      refCount_def)

text \<open>
  C3: for a registered volume, Unmount with count at most 1 calls the backend unmount and
  on its success sets the count to 0, while on its failure it answers with the unmount
  error and leaves the count as it was; Unmount with count above 1 takes one off the count
  and calls no backend; Unmount of an unregistered name answers not found.

  In each case the theorem gives the whole response: the answer, the driver left behind
  (the given one, or the given one with the entry of that name rewritten) and the calls
  made.
\<close>

theorem Unmount_cases:
  "(map_of (volumes d) name = None \<longrightarrow> Unmount sys d name = (Inl (NotFound name), d, [])) \<and>
   (\<forall>v. map_of (volumes d) name = Some v \<longrightarrow>
      (sint (connections v) \<le> 1 \<and> unmountVolume sys (mountPoint v) = None \<longrightarrow>
         Unmount sys d name =
           (Inr Empty, d\<lparr>volumes := AList.update name (v\<lparr>connections := 0\<rparr>) (volumes d)\<rparr>,
            [SRun (umount_cmd (mountPoint v))]) \<and>
         refCount (fst (snd (Unmount sys d name))) name = Some 0) \<and>
      (\<forall>e. sint (connections v) \<le> 1 \<and> unmountVolume sys (mountPoint v) = Some e \<longrightarrow>
         Unmount sys d name = (Inl (UnmountError e), d, [SRun (umount_cmd (mountPoint v))])) \<and>
      (1 < sint (connections v) \<longrightarrow>
         Unmount sys d name =
           (Inr Empty,
            d\<lparr>volumes := AList.update name (v\<lparr>connections := connections v - 1\<rparr>) (volumes d)\<rparr>,
            []) \<and>
         refCount (fst (snd (Unmount sys d name))) name = Some (sint (connections v) - 1)))"
  by (simp add: Unmount_def refCount_def update_conv' sint_decrement)

theorem Unmount_cases_witness:
  "map_of (volumes with_store) ''ghost'' = None
   \<and> Unmount friendly with_store ''ghost'' = (Inl (NotFound ''ghost''), with_store, [])
   \<and> map_of (volumes (in_use 1)) ''store'' = Some (store_info\<lparr>connections := 1\<rparr>)
   \<and> sint (connections (store_info\<lparr>connections := 1\<rparr>)) \<le> 1
   \<and> unmountVolume friendly ''/mnt/minfs/store'' = None
   \<and> Unmount friendly (in_use 1) ''store''
       = (Inr Empty, in_use 0, [SRun ''umount /mnt/minfs/store''])
   \<and> unmountVolume backend_down ''/mnt/minfs/store'' = Some ''exit status 2''
   \<and> Unmount backend_down (in_use 1) ''store''
       = (Inl (UnmountError ''exit status 2''), in_use 1, [SRun ''umount /mnt/minfs/store''])
   \<and> map_of (volumes (in_use 3)) ''store'' = Some (store_info\<lparr>connections := 3\<rparr>)
   \<and> 1 < sint (connections (store_info\<lparr>connections := 3\<rparr>))
   \<and> Unmount friendly (in_use 3) ''store'' = (Inr Empty, in_use 2, [])"
proof -
  have ghost: "map_of (volumes with_store) ''ghost'' = None"
    by (simp add: with_store_eq)
  have one: "map_of (volumes (in_use 1)) ''store'' = Some (store_info\<lparr>connections := 1\<rparr>)"
    by (simp add: in_use_eq)
  have three: "map_of (volumes (in_use 3)) ''store'' = Some (store_info\<lparr>connections := 3\<rparr>)"
    by (simp add: in_use_eq)
  have low: "sint (connections (store_info\<lparr>connections := 1\<rparr>)) \<le> 1"
    and high: "1 < sint (connections (store_info\<lparr>connections := 3\<rparr>))"
    by simp_all
  have up: "unmountVolume friendly (mountPoint (store_info\<lparr>connections := 1\<rparr>)) = None"
    and down: "unmountVolume backend_down (mountPoint (store_info\<lparr>connections := 1\<rparr>))
      = Some ''exit status 2''"
    by (simp_all add: unmountVolume_def friendly_def backend_down_def)
  from Unmount_cases [of with_store "''ghost''" friendly] ghost
  have a: "Unmount friendly with_store ''ghost'' = (Inl (NotFound ''ghost''), with_store, [])"
    by blast
  from Unmount_cases [of "in_use 1" "''store''" friendly] one low up
  have "Unmount friendly (in_use 1) ''store'' =
      (Inr Empty,
       in_use 1\<lparr>volumes := AList.update ''store'' (store_info\<lparr>connections := 1, connections := 0\<rparr>)
         (volumes (in_use 1))\<rparr>,
       [SRun (umount_cmd (mountPoint (store_info\<lparr>connections := 1\<rparr>)))])"
    by blast
  then have b: "Unmount friendly (in_use 1) ''store''
      = (Inr Empty, in_use 0, [SRun ''umount /mnt/minfs/store''])"
    by (simp add: in_use_eq store_info_def umount_cmd_def)
  from Unmount_cases [of "in_use 1" "''store''" backend_down] one low down
  have "Unmount backend_down (in_use 1) ''store'' =
      (Inl (UnmountError ''exit status 2''), in_use 1,
       [SRun (umount_cmd (mountPoint (store_info\<lparr>connections := 1\<rparr>)))])"
    by blast
  then have c: "Unmount backend_down (in_use 1) ''store''
      = (Inl (UnmountError ''exit status 2''), in_use 1, [SRun ''umount /mnt/minfs/store''])"
    by (simp add: store_info_def umount_cmd_def)
  from Unmount_cases [of "in_use 3" "''store''" friendly] three high
  have "Unmount friendly (in_use 3) ''store'' =
      (Inr Empty,
       in_use 3\<lparr>volumes := AList.update ''store''
         (store_info\<lparr>connections := 3, connections := connections (store_info\<lparr>connections := 3\<rparr>) - 1\<rparr>)
         (volumes (in_use 3))\<rparr>,
       [])"
    by blast
  then have e: "Unmount friendly (in_use 3) ''store'' = (Inr Empty, in_use 2, [])"
    by (simp add: in_use_eq store_info_def)
  from up down have up': "unmountVolume friendly ''/mnt/minfs/store'' = None"
    and down': "unmountVolume backend_down ''/mnt/minfs/store'' = Some ''exit status 2''"
    by (simp_all add: store_info_def)
  from ghost a one low up' b down' c three high e show ?thesis by blast
qed

subsection \<open>Create and Remove\<close>

text \<open>
  C4: a Create call for a name that is already registered fails with an already-exists
  error and leaves the existing registration as it was.

  The code has no such answer. Creating \<open>store\<close> again with another endpoint succeeds and
  puts the new entry in the place of the old one, whose endpoint was the first one.
\<close>

theorem create_again_replaces:
  "Create friendly with_store
     \<lparr>Name = ''store'', Options = Some (play(''endpoint'' \<mapsto> ''https://minio.example:9000''))\<rparr>
   = (Inr Empty,
      with_store\<lparr>volumes := [(''store'',
        store_info\<lparr>serverconfig := (serverconfig store_info)\<lparr>endpoint := ''https://minio.example:9000''\<rparr>\<rparr>)]\<rparr>,
      [])
   \<and> map_option (endpoint \<circ> serverconfig) (map_of (volumes with_store) ''store'')
       = Some ''https://play.minio.io:9000''"
  by (simp add: with_store_eq store_info_def Create_def friendly_def play_def option_value_def
      Let_def)

text \<open>
  C5: for a registered volume with a positive count, Remove fails with the in-use error and
  leaves the driver (the registration, the count, the mount path) as it was; for an
  unregistered name Remove fails with not found. Neither case touches the file system.
\<close>

theorem Remove_in_use:
  "(\<forall>v. map_of (volumes d) (Name r) = Some v \<and> 0 < sint (connections v) \<longrightarrow>
      Remove sys d r = (Inl (InUse (Name r)), d, [])) \<and>
   (map_of (volumes d) (Name r) = None \<longrightarrow> Remove sys d r = (Inl (NotFound (Name r)), d, []))"
  by (auto simp: Remove_def)

theorem Remove_in_use_witness:
  "map_of (volumes (in_use 2)) ''store'' = Some (store_info\<lparr>connections := 2\<rparr>)
   \<and> 0 < sint (connections (store_info\<lparr>connections := 2\<rparr>))
   \<and> Remove friendly (in_use 2) \<lparr>Name = ''store'', Options = None\<rparr>
       = (Inl (InUse ''store''), in_use 2, [])
   \<and> map_of (volumes (in_use 2)) ''ghost'' = None
   \<and> Remove friendly (in_use 2) \<lparr>Name = ''ghost'', Options = None\<rparr>
       = (Inl (NotFound ''ghost''), in_use 2, [])"
proof -
  have held: "map_of (volumes (in_use 2)) (Name \<lparr>Name = ''store'', Options = None\<rparr>)
      = Some (store_info\<lparr>connections := 2\<rparr>)"
    and ghost: "map_of (volumes (in_use 2)) (Name \<lparr>Name = ''ghost'', Options = None\<rparr>) = None"
    by (simp_all add: in_use_eq)
  have pos: "0 < sint (connections (store_info\<lparr>connections := 2\<rparr>))"
    by simp
  from Remove_in_use [of "in_use 2" "\<lparr>Name = ''store'', Options = None\<rparr>" friendly] held pos
  have a: "Remove friendly (in_use 2) \<lparr>Name = ''store'', Options = None\<rparr>
      = (Inl (InUse (Name \<lparr>Name = ''store'', Options = None\<rparr>)), in_use 2, [])"
    by blast
  from Remove_in_use [of "in_use 2" "\<lparr>Name = ''ghost'', Options = None\<rparr>" friendly] ghost
  have b: "Remove friendly (in_use 2) \<lparr>Name = ''ghost'', Options = None\<rparr>
      = (Inl (NotFound (Name \<lparr>Name = ''ghost'', Options = None\<rparr>)), in_use 2, [])"
    by blast
  from held ghost pos a b show ?thesis by simp
qed

text \<open>
  C7: a Create request with an empty name, with no options map, or with one of the options
  endpoint, bucket, access-key, secret-key empty or missing fails with an invalid-argument
  error and registers nothing: the driver is the one given, and List answers afterwards
  what it answered before.
\<close>

theorem Create_invalid:
  assumes "Name r = [] \<or> Options r = None \<or>
    (\<exists>opts k. Options r = Some opts
       \<and> k \<in> {''endpoint'', ''bucket'', ''access-key'', ''secret-key''}
       \<and> (opts k = None \<or> opts k = Some []))"
  shows "(\<exists>m. Create sys d r = (Inl (InvalidArgument m), d, []))
    \<and> List (fst (snd (Create sys d r))) q = List d q"
proof -
  have "\<exists>m. Create sys d r = (Inl (InvalidArgument m), d, [])"
    using assms by (auto simp: Create_def option_value_def Let_def split: option.splits)
  then show ?thesis by auto
qed

theorem Create_invalid_witness:
  "Options \<lparr>Name = ''scans'', Options = Some (play(''bucket'' := None))\<rparr>
     = Some (play(''bucket'' := None))
   \<and> (play(''bucket'' := None)) ''bucket'' = None
   \<and> Create friendly with_store \<lparr>Name = ''scans'', Options = Some (play(''bucket'' := None))\<rparr>
       = (Inl (InvalidArgument ''bucket option cannot be empty.''), with_store, [])
   \<and> List (fst (snd (Create friendly with_store
         \<lparr>Name = ''scans'', Options = Some (play(''bucket'' := None))\<rparr>))) \<lparr>Name = [], Options = None\<rparr>
       = (Inr (Volumes [(''store'', ''/mnt/minfs/store'')]), with_store, [])"
proof -
  have h: "Name \<lparr>Name = ''scans'', Options = Some (play(''bucket'' := None))\<rparr> = []
    \<or> Options \<lparr>Name = ''scans'', Options = Some (play(''bucket'' := None))\<rparr> = None
    \<or> (\<exists>opts k. Options \<lparr>Name = ''scans'', Options = Some (play(''bucket'' := None))\<rparr> = Some opts
       \<and> k \<in> {''endpoint'', ''bucket'', ''access-key'', ''secret-key''}
       \<and> (opts k = None \<or> opts k = Some []))"
    by (intro disjI2 exI [of _ "play(''bucket'' := None)"] exI [of _ "''bucket''"]) simp
  have l: "List with_store \<lparr>Name = [], Options = None\<rparr>
      = (Inr (Volumes [(''store'', ''/mnt/minfs/store'')]), with_store, [])"
    by (simp add: List_def with_store_eq store_info_def)
  from Create_invalid [OF h, of friendly with_store "\<lparr>Name = [], Options = None\<rparr>"]
  obtain m where
    c: "Create friendly with_store \<lparr>Name = ''scans'', Options = Some (play(''bucket'' := None))\<rparr>
        = (Inl (InvalidArgument m), with_store, [])"
    and s: "List (fst (snd (Create friendly with_store
         \<lparr>Name = ''scans'', Options = Some (play(''bucket'' := None))\<rparr>))) \<lparr>Name = [], Options = None\<rparr>
       = List with_store \<lparr>Name = [], Options = None\<rparr>"
    by blast
  have "fst (Create friendly with_store \<lparr>Name = ''scans'', Options = Some (play(''bucket'' := None))\<rparr>)
      = Inl (InvalidArgument ''bucket option cannot be empty.'')"
    by (simp add: Create_def play_def option_value_def)
  with c have "m = ''bucket option cannot be empty.''" by simp
  with c s l show ?thesis by simp
qed

text \<open>
  C9: a Create call whose name is already registered and whose four options are all
  non-empty succeeds and puts a fresh entry, built from the new options, in the place of
  the existing one: the count of that volume is 0 again and the server configuration held
  before is gone. The entries of the other names, and the names registered, are as before.
  (The empty name is never registered, and \<open>Create\<close> refuses it before anything else.)
\<close>

theorem Create_overwrites:
  assumes "map_of (volumes d) (Name r) = Some old" and "Name r \<noteq> []"
    and "Options r = Some opts"
    and "\<forall>k \<in> {''endpoint'', ''bucket'', ''access-key'', ''secret-key''}.
           \<exists>s. opts k = Some s \<and> s \<noteq> []"
  shows "Create sys d r =
      (Inr Empty, d\<lparr>volumes := AList.update (Name r) (described sys d r opts) (volumes d)\<rparr>, [])
    \<and> map_of (volumes (fst (snd (Create sys d r)))) (Name r) = Some (described sys d r opts)
    \<and> refCount (fst (snd (Create sys d r))) (Name r) = Some 0
    \<and> (\<forall>n. n \<noteq> Name r \<longrightarrow>
          map_of (volumes (fst (snd (Create sys d r)))) n = map_of (volumes d) n)
    \<and> map fst (volumes (fst (snd (Create sys d r)))) = map fst (volumes d)"
proof -
  have "option_value opts k \<noteq> []"
    if "k \<in> {''endpoint'', ''bucket'', ''access-key'', ''secret-key''}" for k
    using assms(4) that by (auto simp: option_value_def)
  then have c: "Create sys d r =
      (Inr Empty, d\<lparr>volumes := AList.update (Name r) (described sys d r opts) (volumes d)\<rparr>, [])"
    using assms(2,3) by (simp add: Create_def described_def Let_def)
  from assms(1) have "Name r \<in> fst ` set (volumes d)"
    by (metis map_of_eq_None_iff option.distinct(1))
  then have "map fst (AList.update (Name r) (described sys d r opts) (volumes d))
      = map fst (volumes d)"
    by (simp add: update_keys)
  with c show ?thesis
    by (simp add: update_conv' refCount_def described_def)
qed

theorem Create_overwrites_witness:
  "map_of (volumes (in_use 2)) ''store'' = Some (store_info\<lparr>connections := 2\<rparr>)
   \<and> map (play(''endpoint'' \<mapsto> ''https://minio.example:9000''))
         [''endpoint'', ''bucket'', ''access-key'', ''secret-key'']
       = [Some ''https://minio.example:9000'', Some ''test-bucket'',
          Some ''Q3AM3UQ867SPQQA43P2F'', Some ''zuf+tfteSlswRu7BJ86wekitnifILbZam1KYY3TG'']
   \<and> Create friendly (in_use 2)
       \<lparr>Name = ''store'', Options = Some (play(''endpoint'' \<mapsto> ''https://minio.example:9000''))\<rparr>
     = (Inr Empty,
        \<lparr>mountRoot = ''/mnt/minfs'', volumes = [(''store'',
          store_info\<lparr>serverconfig := (serverconfig store_info)\<lparr>endpoint := ''https://minio.example:9000''\<rparr>\<rparr>)]\<rparr>,
        [])
   \<and> refCount (in_use 2) ''store'' = Some 2
   \<and> refCount (fst (snd (Create friendly (in_use 2)
       \<lparr>Name = ''store'', Options = Some (play(''endpoint'' \<mapsto> ''https://minio.example:9000''))\<rparr>)))
       ''store'' = Some 0"
proof -
  let ?opts = "play(''endpoint'' \<mapsto> ''https://minio.example:9000'')"
  let ?r = "\<lparr>Name = ''store'', Options = Some ?opts\<rparr>"
  have nm: "Name ?r = ''store''"
    by simp
  have h1: "map_of (volumes (in_use 2)) (Name ?r) = Some (store_info\<lparr>connections := 2\<rparr>)"
    by (simp add: in_use_eq)
  have h2: "Name ?r \<noteq> []" and h3: "Options ?r = Some ?opts"
    by simp_all
  have h4: "\<forall>k \<in> {''endpoint'', ''bucket'', ''access-key'', ''secret-key''}.
      \<exists>s. ?opts k = Some s \<and> s \<noteq> []"
    by (simp add: play_def)
  have d: "in_use 2\<lparr>volumes := AList.update ''store'' (described friendly (in_use 2) ?r ?opts)
        (volumes (in_use 2))\<rparr>
      = \<lparr>mountRoot = ''/mnt/minfs'', volumes = [(''store'',
          store_info\<lparr>serverconfig := (serverconfig store_info)\<lparr>endpoint := ''https://minio.example:9000''\<rparr>\<rparr>)]\<rparr>"
    by (simp add: in_use_eq described_def store_info_def friendly_def play_def option_value_def)
  have before: "refCount (in_use 2) ''store'' = Some 2"
    by (simp add: refCount_def in_use_eq)
  have given: "map ?opts [''endpoint'', ''bucket'', ''access-key'', ''secret-key'']
      = [Some ''https://minio.example:9000'', Some ''test-bucket'',
         Some ''Q3AM3UQ867SPQQA43P2F'', Some ''zuf+tfteSlswRu7BJ86wekitnifILbZam1KYY3TG'']"
    by (simp add: play_def)
  note new = Create_overwrites [OF h1 h2 h3 h4, of friendly, unfolded nm d]
  from new h1 [unfolded nm] given before show ?thesis
    by blast
qed


subsection \<open>Failures of Mount, and the count over every run\<close>

text \<open>
  C6: for a registered volume with count 0, when the backend mount fails the Mount call
  answers with the backend's error, the count is still 0, and the next Mount call runs the
  backend mount again instead of leaving it out.

  The backend is reached when the mount point is ready, in the first call and in the next;
  the next call may find another operating system than the first.
\<close>

theorem Mount_backend_failure:
  assumes "map_of (volumes d) name = Some v" and "connections v = 0"
    and "mount_dir_ready sys (mountPoint v)" and "mountVolume sys v = Some e"
    and "mount_dir_ready sys' (mountPoint v)"
  shows "fst (Mount sys d name) = Inl (MountError e)
    \<and> fst (snd (Mount sys d name)) = d
    \<and> refCount (fst (snd (Mount sys d name))) name = Some 0
    \<and> backend_mounts (snd (snd (Mount sys d name))) = 1
    \<and> backend_mounts (snd (snd (Mount sys' (fst (snd (Mount sys d name))) name))) = 1"
proof -
  have ready: "backend_mounts (snd (snd (Mount s d name))) = 1"
    if "mount_dir_ready s (mountPoint v)" for s
    using assms(1,2) that
    by (simp add: Mount_def Let_def mount_dir_ready_def backend_mounts_def mount_cmd_def
        split: lstat_result.splits option.splits)
  have same: "fst (snd (Mount sys d name)) = d"
    using assms(1,2) by (simp add: Mount_unreferenced)
  have err: "fst (Mount sys d name) = Inl (MountError e)"
    using assms(1-4)
    by (simp add: Mount_def Let_def mount_dir_ready_def split: lstat_result.splits)
  from ready [OF assms(3)] ready [OF assms(5)] same err assms(1,2) show ?thesis
    by (simp add: refCount_def)
qed

theorem Mount_backend_failure_witness:
  "map_of (volumes with_store) ''store'' = Some store_info
   \<and> connections store_info = 0
   \<and> mount_dir_ready backend_down (mountPoint store_info)
   \<and> mountVolume backend_down store_info = Some ''exit status 2''
   \<and> mount_dir_ready friendly (mountPoint store_info)
   \<and> fst (Mount backend_down with_store ''store'') = Inl (MountError ''exit status 2'')
   \<and> fst (snd (Mount backend_down with_store ''store'')) = with_store
   \<and> refCount (fst (snd (Mount backend_down with_store ''store''))) ''store'' = Some 0
   \<and> backend_mounts (snd (snd (Mount backend_down with_store ''store''))) = 1
   \<and> backend_mounts (snd (snd (Mount friendly
        (fst (snd (Mount backend_down with_store ''store''))) ''store''))) = 1"
proof -
  have h1: "map_of (volumes with_store) ''store'' = Some store_info"
    by (simp add: with_store_eq)
  have h2: "connections store_info = 0"
    by (simp add: store_info_def)
  have h3: "mount_dir_ready backend_down (mountPoint store_info)"
    and h5: "mount_dir_ready friendly (mountPoint store_info)"
    by (simp_all add: mount_dir_ready_def backend_down_def friendly_def)
  have h4: "mountVolume backend_down store_info = Some ''exit status 2''"
    by (simp add: mountVolume_def backend_down_def friendly_def)
  from Mount_backend_failure [OF h1 h2 h3 h4 h5] h1 h2 h3 h4 h5 show ?thesis
    by blast
qed

text \<open>
  C8: whatever sequence of Create, Mount, Unmount, Remove, Path, Get, List and
  Capabilities requests a driver has served since it was started, and whatever the
  operating system answered to each, no registered volume has a negative count.
\<close>

theorem refCount_never_negative:
  assumes "map_of (volumes (driver_after (newMinfsDriver root) cs)) name = Some v"
  shows "0 \<le> sint (connections v)"
proof -
  have "\<forall>n v. map_of (volumes (newMinfsDriver root)) n = Some v \<longrightarrow> connections v = 0"
    by (simp add: newMinfsDriver_def)
  then have "\<forall>n v. map_of (volumes (driver_after (newMinfsDriver root) cs)) n = Some v
      \<longrightarrow> connections v = 0"
    by (rule driver_after_keeps_unreferenced)
  with assms have "connections v = 0" by blast
  then show ?thesis by simp
qed

theorem refCount_never_negative_witness:
  "map_of (volumes (driver_after (newMinfsDriver ''/mnt/minfs'')
      [(friendly, CallCreate \<lparr>Name = ''store'', Options = Some play\<rparr>),
       (friendly, CallMount ''store''), (friendly, CallMount ''store''),
       (backend_down, CallUnmount ''store''), (friendly, CallUnmount ''store''),
       (friendly, CallRemove \<lparr>Name = ''ghost'', Options = None\<rparr>)])) ''store''
     = Some store_info
   \<and> 0 \<le> sint (connections store_info)"
proof -
  have h: "map_of (volumes (driver_after (newMinfsDriver ''/mnt/minfs'')
      [(friendly, CallCreate \<lparr>Name = ''store'', Options = Some play\<rparr>),
       (friendly, CallMount ''store''), (friendly, CallMount ''store''),
       (backend_down, CallUnmount ''store''), (friendly, CallUnmount ''store''),
       (friendly, CallRemove \<lparr>Name = ''ghost'', Options = None\<rparr>)])) ''store''
     = Some store_info"
    by (simp add: Create_def Mount_def Unmount_def Remove_def mountVolume_def
        unmountVolume_def newMinfsDriver_def friendly_def backend_down_def play_def
        option_value_def store_info_def Let_def)
  from h refCount_never_negative [OF h] show ?thesis by blast
qed

text \<open>
  C10: a Mount call that answers with an error, be it for an unregistered name, for a
  mount path that exists and is no directory, for a directory that cannot be created or
  for a failing backend mount, leaves the driver exactly as it was, the count and the
  registration of the volume included.
\<close>

theorem Mount_error_keeps_driver:
  assumes "fst (Mount sys d name) = Inl e"
  shows "fst (snd (Mount sys d name)) = d"
  using assms
  by (simp add: Mount_def Let_def split: option.splits lstat_result.splits if_splits)

theorem Mount_error_keeps_driver_witness:
  "fst (Mount (friendly\<lparr>Lstat := (\<lambda>p. LstatOk False)\<rparr>) (in_use 0) ''store'')
     = Inl (IOError ''/mnt/minfs/store already exist and it's not a directory'')
   \<and> fst (snd (Mount (friendly\<lparr>Lstat := (\<lambda>p. LstatOk False)\<rparr>) (in_use 0) ''store'')) = in_use 0"
proof -
  have h: "fst (Mount (friendly\<lparr>Lstat := (\<lambda>p. LstatOk False)\<rparr>) (in_use 0) ''store'')
     = Inl (IOError ''/mnt/minfs/store already exist and it's not a directory'')"
    by (simp add: Mount_def in_use_eq store_info_def friendly_def Let_def)
  from h Mount_error_keeps_driver [OF h] show ?thesis by blast
qed

end
